theory Spec2Isabelle
  imports Complex_Main "HOL-Library.Multiset"
begin

section \<open>Python values, errors and objects\<close>

text \<open>
  The exceptions that the functions of \<^verbatim>\<open>helpers/training.py\<close> can end with.  A raise is the
  left injection of a sum; the metrics library and the flows, which are handed in as
  parameters, may return any of them.
\<close>

datatype error =
  KeyError | TypeError | ValueError | AxisError | IndexError | ZeroDivisionError | StopIteration

text \<open>
  Probabilities and metric values are Python and numpy floats.  They are modelled as real
  numbers: rounding is not part of the model.
\<close>

text \<open>
  A \<^verbatim>\<open>dict\<close> is the list of its items in insertion order; \<^verbatim>\<open>d[k]\<close> raises
  \<^verbatim>\<open>KeyError\<close> on a missing key.
\<close>

definition dict_get :: "('k \<times> 'v) list \<Rightarrow> 'k \<Rightarrow> error + 'v" where
  "dict_get d k = (case map_of d k of None \<Rightarrow> Inl KeyError | Some v \<Rightarrow> Inr v)"

text \<open>
  \<^verbatim>\<open>dict(pairs)\<close>: a later pair with the same key replaces the value of an earlier one.
  Only lookups are made in the dictionaries built this way, so the model is the lookup.
\<close>

definition dict_of_pairs_get :: "('k \<times> 'v) list \<Rightarrow> 'k \<Rightarrow> error + 'v" where
  "dict_of_pairs_get ps k = dict_get (rev ps) k"

text \<open>
  A numpy array: its shape and its elements in row-major order.  \<^verbatim>\<open>flatten\<close> returns a
  one-dimensional copy, \<^verbatim>\<open>np.array\<close> of a list a one-dimensional array.
\<close>

record ndarray =
  shape :: "nat list"
  data :: "real list"

definition flatten :: "ndarray \<Rightarrow> ndarray" where
  "flatten a = \<lparr>shape = [length (data a)], data = data a\<rparr>"

definition np_array :: "real list \<Rightarrow> ndarray" where
  "np_array xs = \<lparr>shape = [length xs], data = xs\<rparr>"

text \<open>\<^verbatim>\<open>np.where(a > 0.5, 1, 0)\<close> on a one-dimensional array.\<close>

definition np_where_gt_half :: "ndarray \<Rightarrow> int list" where
  "np_where_gt_half a = map (\<lambda>p. if p > 1 / 2 then 1 else 0) (data a)"

text \<open>
  \<^verbatim>\<open>np.argmax(a, axis=1)\<close>.  The scan keeps the first position of the largest element.
  An array of fewer than two dimensions has no axis 1, an axis of length 0 has no maximum.
  For a two-dimensional array the result is one index per row; for more dimensions it is an
  array whose items are arrays again (only their number matters below).
\<close>

fun argmax_scan :: "nat \<Rightarrow> real \<Rightarrow> nat \<Rightarrow> real list \<Rightarrow> nat" where
  "argmax_scan best bv i [] = best"
| "argmax_scan best bv i (x # xs) =
     (if x > bv then argmax_scan i x (Suc i) xs else argmax_scan best bv (Suc i) xs)"

definition argmax_row :: "real list \<Rightarrow> nat" where
  "argmax_row xs = (case xs of [] \<Rightarrow> 0 | x # rest \<Rightarrow> argmax_scan 0 x 1 rest)"

definition rows_of :: "nat \<Rightarrow> nat \<Rightarrow> real list \<Rightarrow> real list list" where
  "rows_of n m xs = map (\<lambda>i. take m (drop (i * m) xs)) [0..<n]"

datatype index_array = Indices "nat list" | SubArrays nat

definition np_argmax_axis1 :: "ndarray \<Rightarrow> error + index_array" where
  "np_argmax_axis1 a =
     (if length (shape a) < 2 then Inl AxisError
      else if shape a ! 1 = 0 then Inl ValueError
      else if length (shape a) = 2
        then Inr (Indices (map argmax_row (rows_of (shape a ! 0) (shape a ! 1) (data a))))
      else Inr (SubArrays (shape a ! 0)))"

text \<open>
  \<^verbatim>\<open>int(s)\<close> for a string: surrounding whitespace is dropped, one sign is allowed, and
  the rest is decimal digits, single underscores allowed between two digits; anything else
  raises \<^verbatim>\<open>ValueError\<close>.  (Strings are bytes here: digits and whitespace outside ASCII
  are not read.)
\<close>

definition is_space :: "char \<Rightarrow> bool" where
  "is_space c =
     (c \<in> set [CHR '' '', CHR 0x09, CHR 0x0A, CHR 0x0B, CHR 0x0C, CHR 0x0D,
                CHR 0x1C, CHR 0x1D, CHR 0x1E, CHR 0x1F])"

definition digit_val :: "char \<Rightarrow> nat option" where
  "digit_val c =
     (let n = of_char c :: nat in if 48 \<le> n \<and> n \<le> 57 then Some (n - 48) else None)"

fun digits_val :: "nat \<Rightarrow> bool \<Rightarrow> string \<Rightarrow> nat option" where
  "digits_val acc after_digit [] = (if after_digit then Some acc else None)"
| "digits_val acc after_digit (c # cs) =
     (if c = CHR ''_'' then (if after_digit then digits_val acc False cs else None)
      else (case digit_val c of None \<Rightarrow> None
            | Some d \<Rightarrow> digits_val (10 * acc + d) True cs))"

definition strip :: "string \<Rightarrow> string" where
  "strip s = rev (dropWhile is_space (rev (dropWhile is_space s)))"

definition py_int :: "string \<Rightarrow> error + int" where
  "py_int s =
     (case strip s of
        [] \<Rightarrow> Inl ValueError
      | c # cs \<Rightarrow>
          (if c = CHR ''-'' then
             (case digits_val 0 False cs of None \<Rightarrow> Inl ValueError | Some n \<Rightarrow> Inr (- int n))
           else if c = CHR ''+'' then
             (case digits_val 0 False cs of None \<Rightarrow> Inl ValueError | Some n \<Rightarrow> Inr (int n))
           else
             (case digits_val 0 False (c # cs) of None \<Rightarrow> Inl ValueError
              | Some n \<Rightarrow> Inr (int n))))"

section \<open>Flows\<close>

text \<open>
  What the functions read of a flow (the iterator that \<^verbatim>\<open>create_flow\<close> gets from the image
  library): the dictionary \<^verbatim>\<open>class_indices\<close> from label to class index, the list
  \<^verbatim>\<open>classes\<close> of the class index of every sample, the list \<^verbatim>\<open>filenames\<close>, and the
  subscript \<^verbatim>\<open>flow[key]\<close> with a string key.  The subscript belongs to the library, so it
  is a field: it returns a value or raises.  The iterators of the image library compare the
  key with their length first, which raises \<^verbatim>\<open>TypeError\<close> for a string key.
\<close>

datatype pyval = PyInt int | PyBatch

record flow =
  class_indices :: "(string \<times> int) list"
  classes :: "int list"
  filenames :: "string list"
  getitem :: "string \<Rightarrow> error + pyval"

section \<open>The mutable world\<close>

text \<open>
  Arrays and lists are objects: a function gets a reference and could write through it.
  A heap maps addresses to contents; a new object takes the next free address.
\<close>

record 'a heap =
  cells :: "nat \<Rightarrow> 'a"
  next_free :: nat

definition alloc :: "'a \<Rightarrow> 'a heap \<Rightarrow> nat \<times> 'a heap" where
  "alloc v h = (next_free h, \<lparr>cells = (cells h)(next_free h := v), next_free = Suc (next_free h)\<rparr>)"

text \<open>
  A printed line.  A line that shows a float is kept as its parts, since the text of a float
  is not modelled; the other lines are their text.
\<close>

datatype out_line =
    Text string
  | AveragePrecisionAt nat real
  | AveragePrecisionMean "nat list" real

record world =
  arrays :: "ndarray heap"
  lists :: "(real \<times> int) list heap"
  stdout :: "out_line list"
  info_txt :: string

definition new_array :: "ndarray \<Rightarrow> world \<Rightarrow> nat \<times> world" where
  "new_array v w = (let (r, h) = alloc v (arrays w) in (r, w\<lparr>arrays := h\<rparr>))"

definition new_list :: "(real \<times> int) list \<Rightarrow> world \<Rightarrow> nat \<times> world" where
  "new_list v w = (let (r, h) = alloc v (lists w) in (r, w\<lparr>lists := h\<rparr>))"

definition print :: "out_line \<Rightarrow> world \<Rightarrow> world" where
  "print l w = w\<lparr>stdout := stdout w @ [l]\<rparr>"

section \<open>Probabilities to predictions\<close>

text \<open>
  The condition of \<^verbatim>\<open>verify_probabilities\<close>,
  \<^verbatim>\<open>train_indices['0'] != 0 and train_flow['1'] != 1\<close>: the second operand subscripts the
  flow itself, and is evaluated only when the first holds.
\<close>

definition alignment_check :: "flow \<Rightarrow> error + bool" where
  "alignment_check train_flow =
     (case dict_get (class_indices train_flow) ''0'' of
        Inl e \<Rightarrow> Inl e
      | Inr i0 \<Rightarrow>
          (if i0 \<noteq> 0 then
             (case getitem train_flow ''1'' of
                Inl e \<Rightarrow> Inl e
              | Inr v \<Rightarrow> Inr (v \<noteq> PyInt 1))
           else Inr False))"

definition verify_probabilities :: "nat \<Rightarrow> flow \<Rightarrow> world \<Rightarrow> (error + nat) \<times> world" where
  "verify_probabilities y_probs train_flow w =
     (case alignment_check train_flow of
        Inl e \<Rightarrow> (Inl e, w)
      | Inr fires \<Rightarrow>
          (if fires then
             (let (flat, w1) = new_array (flatten (cells (arrays w) y_probs)) w;
                  (r, w2) = new_array (np_array (map (\<lambda>el. 1 - el) (data (cells (arrays w1) flat)))) w1
              in (Inr r, w2))
           else
             (let (r, w1) = new_array (flatten (cells (arrays w) y_probs)) w
              in (Inr r, w1))))"

text \<open>\<^verbatim>\<open>[int(labels[k]) for k in predicted_class_indices]\<close>, stopping at the first raise.\<close>

fun labels_of_indices :: "(string \<times> int) list \<Rightarrow> nat list \<Rightarrow> error + int list" where
  "labels_of_indices ci [] = Inr []"
| "labels_of_indices ci (k # ks) =
     (case dict_of_pairs_get (map (\<lambda>(l, v). (v, l)) ci) (int k) of
        Inl e \<Rightarrow> Inl e
      | Inr l \<Rightarrow>
          (case py_int l of
             Inl e \<Rightarrow> Inl e
           | Inr n \<Rightarrow>
               (case labels_of_indices ci ks of
                  Inl e \<Rightarrow> Inl e
                | Inr ns \<Rightarrow> Inr (n # ns))))"

text \<open>
  \<^verbatim>\<open>calculate_prediction\<close> returns the probabilities (a reference: the new flattened array
  in binary mode, the argument itself otherwise), the predictions and the true classes of the
  test flow.  An item of a \<^verbatim>\<open>SubArrays\<close> result is an array, which is no dictionary key.
\<close>

definition calculate_prediction ::
  "nat \<Rightarrow> flow \<Rightarrow> flow \<Rightarrow> bool \<Rightarrow> world \<Rightarrow> (error + nat \<times> int list \<times> int list) \<times> world" where
  "calculate_prediction y_pred_prob trn_flow tst_flow is_binary w =
     (if is_binary then
        (case verify_probabilities y_pred_prob trn_flow w of
           (Inl e, w1) \<Rightarrow> (Inl e, w1)
         | (Inr p, w1) \<Rightarrow>
             (Inr (p, np_where_gt_half (cells (arrays w1) p), classes tst_flow), w1))
      else
        (case np_argmax_axis1 (cells (arrays w) y_pred_prob) of
           Inl e \<Rightarrow> (Inl e, w)
         | Inr (SubArrays n) \<Rightarrow>
             (if n = 0 then (Inr (y_pred_prob, [], classes tst_flow), w) else (Inl TypeError, w))
         | Inr (Indices predicted_class_indices) \<Rightarrow>
             (case labels_of_indices (class_indices trn_flow) predicted_class_indices of
                Inl e \<Rightarrow> (Inl e, w)
              | Inr y_pred \<Rightarrow> (Inr (y_pred_prob, y_pred, classes tst_flow), w))))"

section \<open>The fused generator\<close>

text \<open>
  The iteration side of a flow: \<^verbatim>\<open>reset()\<close> and \<^verbatim>\<open>next()\<close> act on the state of the
  iterator, which the image library owns.  \<^verbatim>\<open>next()\<close> returns a pair of an image batch
  and a label batch, or raises.
\<close>

record ('s, 'x, 'y) iterator =
  reset :: "'s \<Rightarrow> 's"
  next_batch :: "'s \<Rightarrow> (error + 'x \<times> 'y) \<times> 's"

text \<open>
  \<^verbatim>\<open>merge_generators\<close> is a generator function: nothing of its body runs before the
  first pull.  The first pull runs the two resets and the first round of the loop; every later
  pull runs one round.  A raise inside the body ends the generator.
\<close>

datatype gen_status = Created | Suspended | Finished

definition merge_round ::
  "('s1, 'x, 'y1) iterator \<Rightarrow> ('s2, 'x, 'y2) iterator \<Rightarrow> 's1 \<Rightarrow> 's2 \<Rightarrow>
     (error + 'x list \<times> 'y1) \<times> gen_status \<times> 's1 \<times> 's2" where
  "merge_round x1 x2 s1 s2 =
     (case next_batch x1 s1 of
        (Inl e, s1') \<Rightarrow> (Inl e, Finished, s1', s2)
      | (Inr x1i, s1') \<Rightarrow>
          (case next_batch x2 s2 of
             (Inl e, s2') \<Rightarrow> (Inl e, Finished, s1', s2')
           | (Inr x2i, s2') \<Rightarrow> (Inr ([fst x1i, fst x2i], snd x1i), Suspended, s1', s2')))"

fun merge_generators ::
  "('s1, 'x, 'y1) iterator \<Rightarrow> ('s2, 'x, 'y2) iterator \<Rightarrow> gen_status \<times> 's1 \<times> 's2 \<Rightarrow>
     (error + 'x list \<times> 'y1) \<times> gen_status \<times> 's1 \<times> 's2" where
  "merge_generators x1 x2 (Created, s1, s2) = merge_round x1 x2 (reset x1 s1) (reset x2 s2)"
| "merge_generators x1 x2 (Suspended, s1, s2) = merge_round x1 x2 s1 s2"
| "merge_generators x1 x2 (Finished, s1, s2) = (Inl StopIteration, Finished, s1, s2)"

text \<open>The outcomes of \<open>n\<close> consecutive pulls, of the fused generator and of one flow.\<close>

fun pulls ::
  "('s1, 'x, 'y1) iterator \<Rightarrow> ('s2, 'x, 'y2) iterator \<Rightarrow> nat \<Rightarrow> gen_status \<times> 's1 \<times> 's2 \<Rightarrow>
     (error + 'x list \<times> 'y1) list \<times> gen_status \<times> 's1 \<times> 's2" where
  "pulls x1 x2 0 g = ([], g)"
| "pulls x1 x2 (Suc n) g =
     (case merge_generators x1 x2 g of
        (r, g') \<Rightarrow> (case pulls x1 x2 n g' of (rs, g'') \<Rightarrow> (r # rs, g'')))"

fun flow_pulls :: "('s, 'x, 'y) iterator \<Rightarrow> nat \<Rightarrow> 's \<Rightarrow> (error + 'x \<times> 'y) list \<times> 's" where
  "flow_pulls x 0 s = ([], s)"
| "flow_pulls x (Suc n) s =
     (case next_batch x s of
        (r, s') \<Rightarrow> (case flow_pulls x n s' of (rs, s'') \<Rightarrow> (r # rs, s'')))"

section \<open>Metrics\<close>

text \<open>
  The metrics library is a parameter: each of its functions returns a value or raises.
  \<^verbatim>\<open>precision_recall_fscore_support\<close> returns four values, of which the source drops the
  last; the model keeps the first three.
\<close>

datatype average = Binary | Macro

record sklearn =
  accuracy_score :: "int list \<Rightarrow> int list \<Rightarrow> error + real"
  precision_recall_fscore_support ::
    "int list \<Rightarrow> int list \<Rightarrow> average \<Rightarrow> error + real \<times> real \<times> real"
  mean_absolute_error :: "int list \<Rightarrow> int list \<Rightarrow> error + real"
  average_precision_score :: "int list \<Rightarrow> real list \<Rightarrow> error + real"

text \<open>\<^verbatim>\<open>d[k] = v\<close> and \<^verbatim>\<open>d.update(items)\<close> on the items of a dictionary.\<close>

definition dict_set :: "('k \<times> 'v) list \<Rightarrow> 'k \<Rightarrow> 'v \<Rightarrow> ('k \<times> 'v) list" where
  "dict_set d k v =
     (if k \<in> set (map fst d) then map (\<lambda>(k', v'). if k' = k then (k', v) else (k', v')) d
      else d @ [(k, v)])"

definition dict_update :: "('k \<times> 'v) list \<Rightarrow> ('k \<times> 'v) list \<Rightarrow> ('k \<times> 'v) list" where
  "dict_update d items = foldl (\<lambda>d' (k, v). dict_set d' k v) d items"

definition accuracy_precision_recall_fscore ::
  "sklearn \<Rightarrow> int list \<Rightarrow> int list \<Rightarrow> bool \<Rightarrow> error + (string \<times> real) list" where
  "accuracy_precision_recall_fscore sk y_test y_pred is_binary =
     (case accuracy_score sk y_test y_pred of
        Inl e \<Rightarrow> Inl e
      | Inr accuracy \<Rightarrow>
          (let result = [(''accuracy'', accuracy)] in
           if is_binary then
             (case precision_recall_fscore_support sk y_test y_pred Binary of
                Inl e \<Rightarrow> Inl e
              | Inr (precision, recall, f_score) \<Rightarrow>
                  Inr (dict_update result
                        [(''precision'', precision), (''recall'', recall), (''f-score'', f_score)]))
           else
             (case mean_absolute_error sk y_test y_pred of
                Inl e \<Rightarrow> Inl e
              | Inr mean_absolute \<Rightarrow>
                  (case precision_recall_fscore_support sk y_test y_pred Macro of
                     Inl e \<Rightarrow> Inl e
                   | Inr (precision_ma, recall_ma, f_score_ma) \<Rightarrow>
                       Inr (dict_update result
                             [(''precision_ma'', precision_ma), (''recall_ma'', recall_ma),
                              (''f-score_ma'', f_score_ma),
                              (''mean_absolute_error'', mean_absolute)])))))"

section \<open>Ranked average precision\<close>

text \<open>
  \<^verbatim>\<open>sorted(lst, key=itemgetter(0), reverse=True)\<close>: the stable sort of Python, which for
  \<^verbatim>\<open>reverse=True\<close> sorts the reversed list and reverses the result.
\<close>

definition sorted_desc :: "(real \<times> int) list \<Rightarrow> (real \<times> int) list" where
  "sorted_desc lst = rev (sort_key fst (rev lst))"

text \<open>
  \<^verbatim>\<open>y_score, y_true = zip(*pairs)\<close>: \<^verbatim>\<open>zip\<close> of no argument yields nothing, and
  unpacking nothing into two names raises \<^verbatim>\<open>ValueError\<close>.
\<close>

definition py_unzip :: "(real \<times> int) list \<Rightarrow> error + real list \<times> int list" where
  "py_unzip pairs = (if pairs = [] then Inl ValueError else Inr (map fst pairs, map snd pairs))"

definition ks_default :: "nat list" where
  "ks_default = [50, 100, 250, 480]"

fun average_precision_loop ::
  "sklearn \<Rightarrow> (real \<times> int) list \<Rightarrow> nat list \<Rightarrow> real \<Rightarrow> world \<Rightarrow> (error + real) \<times> world" where
  "average_precision_loop sk results [] score w = (Inr score, w)"
| "average_precision_loop sk results (k # ks) score w =
     (case py_unzip (take k results) of
        Inl e \<Rightarrow> (Inl e, w)
      | Inr (y_score, y_true) \<Rightarrow>
          (case average_precision_score sk y_true y_score of
             Inl e \<Rightarrow> (Inl e, w)
           | Inr average_precision \<Rightarrow>
               average_precision_loop sk results ks (score + average_precision)
                 (print (AveragePrecisionAt k average_precision) w)))"

text \<open>
  The argument \<open>lst\<close> is a reference to the pool; \<^verbatim>\<open>sorted\<close> makes a new list.  The
  function returns nothing: what it does is what it prints.
\<close>

definition calculate_average_precision_ks ::
  "sklearn \<Rightarrow> nat \<Rightarrow> bool \<Rightarrow> nat list \<Rightarrow> world \<Rightarrow> (error + unit) \<times> world" where
  "calculate_average_precision_ks sk lst is_binary ks w =
     (if is_binary then
        (let (results, w1) = new_list (sorted_desc (cells (lists w) lst)) w in
         case average_precision_loop sk (cells (lists w1) results) ks 0 w1 of
           (Inl e, w2) \<Rightarrow> (Inl e, w2)
         | (Inr score, w2) \<Rightarrow>
             (if ks = [] then (Inl ZeroDivisionError, w2)
              else (Inr (), print (AveragePrecisionMean ks (score / real (length ks))) w2)))
      else (Inr (), w))"

section \<open>Metrics across the folds\<close>

text \<open>
  The cross-validation drivers start with \<^verbatim>\<open>metrics_dict = defaultdict(int)\<close> and replace
  it after every fold by the plain dictionary
  \<^verbatim>\<open>dict((k, metrics_dict[k] + v) for k, v in metrics_it.items())\<close>.  A missing key reads
  as \<open>0\<close> in the \<^verbatim>\<open>defaultdict\<close> and raises in the plain dictionary.
\<close>

datatype metrics_dict = DefaultDict "(string \<times> real) list" | Dict "(string \<times> real) list"

fun metrics_get :: "metrics_dict \<Rightarrow> string \<Rightarrow> error + real" where
  "metrics_get (DefaultDict d) k = (case map_of d k of None \<Rightarrow> Inr 0 | Some v \<Rightarrow> Inr v)"
| "metrics_get (Dict d) k = dict_get d k"

fun metrics_items :: "metrics_dict \<Rightarrow> (string \<times> real) list" where
  "metrics_items (DefaultDict d) = d"
| "metrics_items (Dict d) = d"

fun add_metrics :: "metrics_dict \<Rightarrow> (string \<times> real) list \<Rightarrow> error + (string \<times> real) list" where
  "add_metrics metrics_dict [] = Inr []"
| "add_metrics metrics_dict ((k, v) # items) =
     (case metrics_get metrics_dict k of
        Inl e \<Rightarrow> Inl e
      | Inr s \<Rightarrow>
          (case add_metrics metrics_dict items of
             Inl e \<Rightarrow> Inl e
           | Inr rest \<Rightarrow> Inr ((k, s + v) # rest)))"

text \<open>
  The loop over the folds, as far as \<^verbatim>\<open>metrics_dict\<close> goes: \<open>folds\<close> holds the items of
  the \<^verbatim>\<open>metrics_it\<close> of each fold, in order.
\<close>

fun fold_loop :: "metrics_dict \<Rightarrow> (string \<times> real) list list \<Rightarrow> error + metrics_dict" where
  "fold_loop metrics_dict [] = Inr metrics_dict"
| "fold_loop metrics_dict (metrics_it # folds) =
     (case add_metrics metrics_dict metrics_it of
        Inl e \<Rightarrow> Inl e
      | Inr d \<Rightarrow> fold_loop (Dict d) folds)"

text \<open>
  The \<^verbatim>\<open>metrics_dict\<close> that \<^verbatim>\<open>train_test_model_cv\<close> and
  \<^verbatim>\<open>train_test_attention_guided_cnn\<close> print at their end:
  \<^verbatim>\<open>dict((k, v / nr_folds) for k, v in metrics_dict.items())\<close>.
  \<^verbatim>\<open>StratifiedKFold\<close> refuses fewer than two splits when it is built, before the loop.
\<close>

definition train_test_model_cv ::
  "nat \<Rightarrow> (string \<times> real) list list \<Rightarrow> error + (string \<times> real) list" where
  "train_test_model_cv nr_folds folds =
     (if nr_folds < 2 then Inl ValueError
      else
        (case fold_loop (DefaultDict []) folds of
           Inl e \<Rightarrow> Inl e
         | Inr metrics_dict \<Rightarrow>
             Inr (map (\<lambda>(k, v). (k, v / real nr_folds)) (metrics_items metrics_dict))))"

section \<open>The classification report\<close>

record args =
  dataset :: string
  data_augmentation :: bool
  print_classifications_flag :: bool

fun str_nat :: "nat \<Rightarrow> string" where
  "str_nat n =
     (if n < 10 then [char_of (48 + n)] else str_nat (n div 10) @ [char_of (48 + n mod 10)])"

definition str_int :: "int \<Rightarrow> string" where
  "str_int i = (if i < 0 then CHR ''-'' # str_nat (nat (- i)) else str_nat (nat i))"

text \<open>\<^verbatim>\<open>"{:<105}".format(s)\<close>: left-justified in a field of 105 characters.\<close>

definition ljust105 :: "string \<Rightarrow> string" where
  "ljust105 s = s @ replicate (105 - length s) (CHR '' '')"

definition classification_text :: "string \<Rightarrow> int \<Rightarrow> int \<Rightarrow> string" where
  "classification_text filename true_class el =
     ljust105 filename @ '' -> True: '' @ str_int true_class @ '' | Pred: '' @ str_int el"

definition green :: string where "green = CHR 0x1B # ''[92m''"
definition red :: string where "red = CHR 0x1B # ''[91m''"
definition end_colour :: string where "end_colour = CHR 0x1B # ''[0m''"

definition file_write :: "string \<Rightarrow> world \<Rightarrow> world" where
  "file_write s w = w\<lparr>info_txt := info_txt w @ s\<rparr>"

fun classifications_loop :: "flow \<Rightarrow> nat \<Rightarrow> int list \<Rightarrow> world \<Rightarrow> (error + unit) \<times> world" where
  "classifications_loop tst_flow idx [] w = (Inr (), w)"
| "classifications_loop tst_flow idx (el # rest) w =
     (if idx < length (classes tst_flow) then
        (if idx < length (filenames tst_flow) then
           (let true_class = classes tst_flow ! idx;
                filename = filenames tst_flow ! idx;
                colour = (if true_class = el then green else red);
                w1 = print (Text (colour @ classification_text filename true_class el @ end_colour)) w;
                tick = (if true_class = el then ''Correct'' else ''Incorrect'');
                w2 = file_write (classification_text filename true_class el @ '' -> '' @ tick
                                   @ [CHR 0x0A]) w1
            in classifications_loop tst_flow (Suc idx) rest w2)
         else (Inl IndexError, w))
      else (Inl IndexError, w))"

definition print_classifications ::
  "args \<Rightarrow> flow \<Rightarrow> int list \<Rightarrow> world \<Rightarrow> (error + unit) \<times> world" where
  "print_classifications a tst_flow y_pred w =
     (if \<not> print_classifications_flag a then (Inr (), w)
      else
        (case classifications_loop tst_flow 0 y_pred w of
           (Inl e, w1) \<Rightarrow> (Inl e, w1)
         | (Inr u, w1) \<Rightarrow> (Inr (), file_write (replicate 48 (CHR ''-'') @ [CHR 0x0A]) w1)))"

section \<open>Allocation\<close>

lemma new_array_simps:
  "new_array v w = (next_free (arrays w),
     w\<lparr>arrays := \<lparr>cells = (cells (arrays w))(next_free (arrays w) := v),
                   next_free = Suc (next_free (arrays w))\<rparr>\<rparr>)"
  by (simp add: new_array_def alloc_def)

lemma new_list_simps:
  "new_list v w = (next_free (lists w),
     w\<lparr>lists := \<lparr>cells = (cells (lists w))(next_free (lists w) := v),
                  next_free = Suc (next_free (lists w))\<rparr>\<rparr>)"
  by (simp add: new_list_def alloc_def)

section \<open>Properties of the predictions\<close>

text \<open>
  When the subscript of the flow raises, and that of the image library does for every string
  key, a flow whose label \<^verbatim>\<open>'0'\<close> has another index than 0 makes the whole call raise.
\<close>

lemma calculate_prediction_raises:
  assumes "dict_get (class_indices trn_flow) ''0'' = Inr i0" and "i0 \<noteq> 0"
      and "getitem trn_flow ''1'' = Inl e"
  shows "calculate_prediction y_pred_prob trn_flow tst_flow True w = (Inl e, w)"
  using assms
  by (simp add: calculate_prediction_def verify_probabilities_def alignment_check_def)

text \<open>
  Only a subscript that returns something other than 1 lets the correction happen: the
  predictions are then those of the complemented probabilities.
\<close>

lemma calculate_prediction_complements:
  assumes "alignment_check trn_flow = Inr True"
  shows "\<exists>p w'.
           calculate_prediction y_pred_prob trn_flow tst_flow True w
             = (Inr (p, map (\<lambda>x. if 1 - x > 1 / 2 then 1 else 0)
                          (data (cells (arrays w) y_pred_prob)),
                     classes tst_flow), w')
         \<and> data (cells (arrays w') p) = map (\<lambda>x. 1 - x) (data (cells (arrays w) y_pred_prob))"
  using assms
  by (simp add: calculate_prediction_def verify_probabilities_def new_array_simps
        flatten_def np_array_def np_where_gt_half_def o_def)

text \<open>
  C1.  In binary mode the predictions for a training flow with the inverted mapping (label
  \<^verbatim>\<open>'1'\<close> at index 0, label \<^verbatim>\<open>'0'\<close> at index 1) should be those of the probabilities
  complemented to \<open>1 - p\<close> and cut at 0.5, here \<open>[0, 1]\<close> for \<open>[0.9, 0.2]\<close>.  The code
  evaluates \<^verbatim>\<open>train_flow['1']\<close> where \<^verbatim>\<open>train_indices['1']\<close> is meant, and with a flow of
  the image library the call raises \<^verbatim>\<open>TypeError\<close> and returns no prediction.
\<close>

theorem calculate_prediction_inverted_flow:
  "calculate_prediction 0
     \<lparr>class_indices = [(''0'', 1), (''1'', 0)], classes = [1, 0],
      filenames = [''a.jpg'', ''b.jpg''], getitem = (\<lambda>key. Inl TypeError)\<rparr>
     \<lparr>class_indices = [(''0'', 1), (''1'', 0)], classes = [1, 0],
      filenames = [''c.jpg'', ''d.jpg''], getitem = (\<lambda>key. Inl TypeError)\<rparr>
     True
     \<lparr>arrays = \<lparr>cells = (\<lambda>a. \<lparr>shape = [2, 1], data = [9 / 10, 1 / 5]\<rparr>), next_free = 1\<rparr>,
      lists = \<lparr>cells = (\<lambda>a. []), next_free = 0\<rparr>, stdout = [], info_txt = ''''\<rparr>
   = (Inl TypeError,
     \<lparr>arrays = \<lparr>cells = (\<lambda>a. \<lparr>shape = [2, 1], data = [9 / 10, 1 / 5]\<rparr>), next_free = 1\<rparr>,
      lists = \<lparr>cells = (\<lambda>a. []), next_free = 0\<rparr>, stdout = [], info_txt = ''''\<rparr>)"
  by (simp add: calculate_prediction_def verify_probabilities_def alignment_check_def dict_get_def)

text \<open>
  C10.  In binary mode, when the alignment check does not fire, the returned probabilities
  are a one-dimensional array with the elements of the argument, whatever its shape, and every
  prediction is 0 or 1, and 1 exactly when its probability is greater than 0.5.
\<close>

theorem calculate_prediction_not_fired:
  assumes "alignment_check trn_flow = Inr False"
  shows "\<exists>p y_pred w'.
           calculate_prediction y_pred_prob trn_flow tst_flow True w
             = (Inr (p, y_pred, classes tst_flow), w')
         \<and> shape (cells (arrays w') p) = [length (data (cells (arrays w) y_pred_prob))]
         \<and> data (cells (arrays w') p) = data (cells (arrays w) y_pred_prob)
         \<and> length y_pred = length (data (cells (arrays w) y_pred_prob))
         \<and> (\<forall>i < length y_pred.
              (y_pred ! i = 0 \<or> y_pred ! i = 1)
              \<and> (y_pred ! i = 1) = (data (cells (arrays w) y_pred_prob) ! i > 1 / 2))"
  using assms
  by (simp add: calculate_prediction_def verify_probabilities_def new_array_simps
        flatten_def np_where_gt_half_def)

theorem calculate_prediction_not_fired_witness:
  "let trn = \<lparr>class_indices = [(''0'', 0), (''1'', 1)], classes = [0, 1, 1],
              filenames = [''a.jpg'', ''b.jpg'', ''c.jpg''], getitem = (\<lambda>key. Inl TypeError)\<rparr>;
       tst = \<lparr>class_indices = [(''0'', 0), (''1'', 1)], classes = [1, 0],
              filenames = [''d.jpg'', ''e.jpg''], getitem = (\<lambda>key. Inl TypeError)\<rparr>;
       w = \<lparr>arrays = \<lparr>cells = (\<lambda>a. \<lparr>shape = [2, 1], data = [9 / 10, 1 / 2]\<rparr>), next_free = 1\<rparr>,
            lists = \<lparr>cells = (\<lambda>a. []), next_free = 0\<rparr>, stdout = [], info_txt = ''''\<rparr>
   in \<exists>p y_pred w'.
           calculate_prediction 0 trn tst True w = (Inr (p, y_pred, classes tst), w')
         \<and> shape (cells (arrays w') p) = [length (data (cells (arrays w) 0))]
         \<and> data (cells (arrays w') p) = data (cells (arrays w) 0)
         \<and> length y_pred = length (data (cells (arrays w) 0))
         \<and> (\<forall>i < length y_pred.
              (y_pred ! i = 0 \<or> y_pred ! i = 1)
              \<and> (y_pred ! i = 1) = (data (cells (arrays w) 0) ! i > 1 / 2))"
proof -
  have h: "alignment_check
             \<lparr>class_indices = [(''0'', 0), (''1'', 1)], classes = [0, 1, 1],
              filenames = [''a.jpg'', ''b.jpg'', ''c.jpg''], getitem = (\<lambda>key. Inl TypeError)\<rparr>
           = Inr False"
    by (simp add: alignment_check_def dict_get_def)
  show ?thesis
    unfolding Let_def by (rule calculate_prediction_not_fired [OF h])
qed

text \<open>
  C7.  Running \<^verbatim>\<open>calculate_prediction\<close> twice on the same arguments gives the same
  outcome: the first run leaves the argument array as it was, and the second run raises the
  same error or returns the same predictions, the same true classes and probabilities with the
  same contents.  The argument is a reference to an existing array.
\<close>

theorem calculate_prediction_rerun:
  assumes "y_pred_prob < next_free (arrays w)"
      and "calculate_prediction y_pred_prob trn_flow tst_flow is_binary w = (r, w1)"
      and "calculate_prediction y_pred_prob trn_flow tst_flow is_binary w1 = (r2, w2)"
  shows "cells (arrays w1) y_pred_prob = cells (arrays w) y_pred_prob
       \<and> (case r of
            Inl e \<Rightarrow> r2 = Inl e
          | Inr (p, y_pred, y_test) \<Rightarrow>
              (\<exists>p2. r2 = Inr (p2, y_pred, y_test) \<and> cells (arrays w2) p2 = cells (arrays w1) p))"
  using assms
  by (auto simp add: calculate_prediction_def verify_probabilities_def new_array_simps
        flatten_def np_array_def Let_def
        split: if_splits sum.splits index_array.splits)

theorem calculate_prediction_rerun_witness:
  "let w = \<lparr>arrays = \<lparr>cells = (\<lambda>a. \<lparr>shape = [2, 1], data = [9 / 10, 1 / 2]\<rparr>), next_free = 1\<rparr>,
            lists = \<lparr>cells = (\<lambda>a. []), next_free = 0\<rparr>, stdout = [], info_txt = ''''\<rparr>;
       w1 = \<lparr>arrays = \<lparr>cells = (\<lambda>a. \<lparr>shape = [2, 1], data = [9 / 10, 1 / 2]\<rparr>)
                          (1 := \<lparr>shape = [2], data = [9 / 10, 1 / 2]\<rparr>), next_free = 2\<rparr>,
            lists = \<lparr>cells = (\<lambda>a. []), next_free = 0\<rparr>, stdout = [], info_txt = ''''\<rparr>;
       w2 = \<lparr>arrays = \<lparr>cells = (\<lambda>a. \<lparr>shape = [2, 1], data = [9 / 10, 1 / 2]\<rparr>)
                          (1 := \<lparr>shape = [2], data = [9 / 10, 1 / 2]\<rparr>,
                           2 := \<lparr>shape = [2], data = [9 / 10, 1 / 2]\<rparr>), next_free = 3\<rparr>,
            lists = \<lparr>cells = (\<lambda>a. []), next_free = 0\<rparr>, stdout = [], info_txt = ''''\<rparr>
   in cells (arrays w1) 0 = cells (arrays w) 0
      \<and> (\<exists>p2. (Inr (2, [1, 0], [1, 0]) :: error + nat \<times> int list \<times> int list)
                   = Inr (p2, [1, 0], [1, 0])
              \<and> cells (arrays w2) p2 = cells (arrays w1) 1)"
proof -
  let ?trn = "\<lparr>class_indices = [(''0'', 0), (''1'', 1)], classes = [0, 1, 1],
         filenames = [''a.jpg'', ''b.jpg'', ''c.jpg''], getitem = (\<lambda>key. Inl TypeError)\<rparr>"
  let ?tst = "\<lparr>class_indices = [(''0'', 0), (''1'', 1)], classes = [1, 0],
         filenames = [''d.jpg'', ''e.jpg''], getitem = (\<lambda>key. Inl TypeError)\<rparr>"
  let ?w = "\<lparr>arrays = \<lparr>cells = (\<lambda>a. \<lparr>shape = [2, 1], data = [9 / 10, 1 / 2]\<rparr>), next_free = 1\<rparr>,
         lists = \<lparr>cells = (\<lambda>a. []), next_free = 0\<rparr>, stdout = [], info_txt = ''''\<rparr>"
  let ?w1 = "\<lparr>arrays = \<lparr>cells = (\<lambda>a. \<lparr>shape = [2, 1], data = [9 / 10, 1 / 2]\<rparr>)
                          (1 := \<lparr>shape = [2], data = [9 / 10, 1 / 2]\<rparr>), next_free = 2\<rparr>,
         lists = \<lparr>cells = (\<lambda>a. []), next_free = 0\<rparr>, stdout = [], info_txt = ''''\<rparr>"
  let ?w2 = "\<lparr>arrays = \<lparr>cells = (\<lambda>a. \<lparr>shape = [2, 1], data = [9 / 10, 1 / 2]\<rparr>)
                          (1 := \<lparr>shape = [2], data = [9 / 10, 1 / 2]\<rparr>,
                           2 := \<lparr>shape = [2], data = [9 / 10, 1 / 2]\<rparr>), next_free = 3\<rparr>,
         lists = \<lparr>cells = (\<lambda>a. []), next_free = 0\<rparr>, stdout = [], info_txt = ''''\<rparr>"
  have h1: "0 < next_free (arrays ?w)" by simp
  have h2: "calculate_prediction 0 ?trn ?tst True ?w = (Inr (1, [1, 0], [1, 0]), ?w1)"
    by (simp add: calculate_prediction_def verify_probabilities_def alignment_check_def
          dict_get_def new_array_simps flatten_def np_where_gt_half_def numeral_2_eq_2)
  have h3: "calculate_prediction 0 ?trn ?tst True ?w1 = (Inr (2, [1, 0], [1, 0]), ?w2)"
    by (simp add: calculate_prediction_def verify_probabilities_def alignment_check_def
          dict_get_def new_array_simps flatten_def np_where_gt_half_def numeral_2_eq_2
          numeral_3_eq_3)
  show ?thesis
    unfolding Let_def using calculate_prediction_rerun [OF h1 h2 h3] by simp
qed

section \<open>Properties of the fused generator\<close>

lemma flow_pulls_length: "length (fst (flow_pulls x n s)) = n"
proof (induction n arbitrary: s)
  case 0
  then show ?case by simp
next
  case (Suc n)
  obtain r t where nb: "next_batch x s = (r, t)" by (cases "next_batch x s")
  obtain rs u where fp: "flow_pulls x n t = (rs, u)" by (cases "flow_pulls x n t")
  from Suc.IH [of t] fp have "length rs = n" by simp
  then show ?case using nb fp by simp
qed

lemma pulls_suspended:
  assumes "fst (flow_pulls x1 n s1) = map Inr bs1"
      and "fst (flow_pulls x2 n s2) = map Inr bs2"
  shows "pulls x1 x2 n (Suspended, s1, s2)
         = (map (\<lambda>(b1, b2). Inr ([fst b1, fst b2], snd b1)) (zip bs1 bs2),
            Suspended,
            snd (flow_pulls x1 n s1), snd (flow_pulls x2 n s2))"
  using assms
proof (induction n arbitrary: s1 s2 bs1 bs2)
  case 0
  then show ?case by simp
next
  case (Suc n)
  obtain r1 t1 where n1: "next_batch x1 s1 = (r1, t1)" by (cases "next_batch x1 s1")
  obtain r2 t2 where n2: "next_batch x2 s2 = (r2, t2)" by (cases "next_batch x2 s2")
  obtain rs1 u1 where f1: "flow_pulls x1 n t1 = (rs1, u1)" by (cases "flow_pulls x1 n t1")
  obtain rs2 u2 where f2: "flow_pulls x2 n t2 = (rs2, u2)" by (cases "flow_pulls x2 n t2")
  from Suc.prems(1) n1 f1 obtain b1 cs1 where b1: "bs1 = b1 # cs1" "r1 = Inr b1" "rs1 = map Inr cs1"
    by (cases bs1) auto
  from Suc.prems(2) n2 f2 obtain b2 cs2 where b2: "bs2 = b2 # cs2" "r2 = Inr b2" "rs2 = map Inr cs2"
    by (cases bs2) auto
  have ih: "pulls x1 x2 n (Suspended, t1, t2)
         = (map (\<lambda>(b1, b2). Inr ([fst b1, fst b2], snd b1)) (zip cs1 cs2),
            Suspended, snd (flow_pulls x1 n t1), snd (flow_pulls x2 n t2))"
    using Suc.IH [of t1 cs1 t2 cs2] f1 f2 b1 b2 by simp
  show ?case
    using n1 n2 f1 f2 b1 b2 ih by (simp add: merge_round_def)
qed

text \<open>
  C5.  The first pull resets both flows; as long as the flows deliver, every pull yields the
  two image batches as a two-element list together with the label batch of the first flow, and
  the generator stays suspended, ready for the next pull.  So \<open>n\<close> pulls yield exactly the
  label sequence of the first flow, whatever the labels of the second are.
\<close>

theorem merge_generators_labels:
  assumes "fst (flow_pulls x1 n (reset x1 s1)) = map Inr bs1"
      and "fst (flow_pulls x2 n (reset x2 s2)) = map Inr bs2"
      and "0 < n"
  shows "pulls x1 x2 n (Created, s1, s2)
           = (map (\<lambda>(b1, b2). Inr ([fst b1, fst b2], snd b1)) (zip bs1 bs2),
              Suspended,
              snd (flow_pulls x1 n (reset x1 s1)), snd (flow_pulls x2 n (reset x2 s2)))
       \<and> map (\<lambda>r. case r of Inl e \<Rightarrow> None | Inr (images, labels) \<Rightarrow> Some labels)
             (fst (pulls x1 x2 n (Created, s1, s2)))
           = map (\<lambda>b. Some (snd b)) bs1"
proof -
  obtain m where m: "n = Suc m" using assms(3) by (cases n) auto
  have "pulls x1 x2 n (Created, s1, s2) = pulls x1 x2 n (Suspended, reset x1 s1, reset x2 s2)"
    by (simp add: m)
  moreover have "length bs1 = n" "length bs2 = n"
    using assms(1,2) by (metis length_map flow_pulls_length)+
  ultimately show ?thesis
    using pulls_suspended [OF assms(1) assms(2)]
    by (simp add: list_eq_iff_nth_eq)
qed

theorem merge_generators_labels_witness:
  "pulls \<lparr>reset = (\<lambda>s. 0), next_batch = (\<lambda>s. (Inr (s, s + 10), Suc s))\<rparr>
         \<lparr>reset = (\<lambda>s. 0), next_batch = (\<lambda>s. (Inr (s + 100, s + 20), Suc s))\<rparr>
         2 (Created, 5, 7 :: nat)
   = ([Inr ([0, 100], 10), Inr ([1, 101], 11 :: nat)], Suspended, 2 :: nat, 2)"
proof -
  let ?x1 = "\<lparr>reset = (\<lambda>s. 0), next_batch = (\<lambda>s::nat. (Inr (s, s + 10), Suc s))\<rparr>
               :: (nat, nat, nat) iterator"
  let ?x2 = "\<lparr>reset = (\<lambda>s. 0), next_batch = (\<lambda>s::nat. (Inr (s + 100, s + 20), Suc s))\<rparr>
               :: (nat, nat, nat) iterator"
  have h1: "fst (flow_pulls ?x1 2 (reset ?x1 5)) = map Inr [(0, 10), (1, 11)]"
    by (simp add: numeral_2_eq_2)
  have h2: "fst (flow_pulls ?x2 2 (reset ?x2 7)) = map Inr [(100, 20), (101, 21)]"
    by (simp add: numeral_2_eq_2)
  have h3: "0 < (2 :: nat)" by simp
  show ?thesis
    using merge_generators_labels [OF h1 h2 h3] by (simp add: numeral_2_eq_2)
qed

section \<open>Properties of the metrics\<close>

text \<open>
  C6.  \<^verbatim>\<open>accuracy_precision_recall_fscore\<close> returns a dictionary exactly when the
  library calls it makes return, and then the dictionary holds the accuracy and, in binary
  mode, the precision, recall and F-score under binary averaging, otherwise the macro-averaged
  precision, recall and F-score and the mean absolute error, and no other key.
\<close>

theorem accuracy_precision_recall_fscore_keys:
  "(accuracy_precision_recall_fscore sk y_test y_pred is_binary = Inr d)
   = (\<exists>accuracy. accuracy_score sk y_test y_pred = Inr accuracy \<and>
        (if is_binary then
           (\<exists>precision recall f_score.
              precision_recall_fscore_support sk y_test y_pred Binary
                = Inr (precision, recall, f_score) \<and>
              d = [(''accuracy'', accuracy), (''precision'', precision), (''recall'', recall),
                   (''f-score'', f_score)])
         else
           (\<exists>mean_absolute precision_ma recall_ma f_score_ma.
              mean_absolute_error sk y_test y_pred = Inr mean_absolute \<and>
              precision_recall_fscore_support sk y_test y_pred Macro
                = Inr (precision_ma, recall_ma, f_score_ma) \<and>
              d = [(''accuracy'', accuracy), (''precision_ma'', precision_ma),
                   (''recall_ma'', recall_ma), (''f-score_ma'', f_score_ma),
                   (''mean_absolute_error'', mean_absolute)])))"
proof (cases "accuracy_score sk y_test y_pred")
  case (Inl e)
  then show ?thesis by (simp add: accuracy_precision_recall_fscore_def)
next
  case acc: (Inr accuracy)
  show ?thesis
  proof (cases is_binary)
    case True
    show ?thesis
    proof (cases "precision_recall_fscore_support sk y_test y_pred Binary")
      case (Inl e)
      then show ?thesis using acc True by (simp add: accuracy_precision_recall_fscore_def)
    next
      case (Inr t)
      obtain precision recall f_score where t: "t = (precision, recall, f_score)"
        by (cases t) auto
      show ?thesis
        using acc True Inr t
        by (auto simp add: accuracy_precision_recall_fscore_def dict_update_def dict_set_def)
    qed
  next
    case False
    show ?thesis
    proof (cases "mean_absolute_error sk y_test y_pred")
      case (Inl e)
      then show ?thesis using acc False by (simp add: accuracy_precision_recall_fscore_def)
    next
      case mae: (Inr mean_absolute)
      show ?thesis
      proof (cases "precision_recall_fscore_support sk y_test y_pred Macro")
        case (Inl e)
        then show ?thesis
          using acc False mae by (simp add: accuracy_precision_recall_fscore_def)
      next
        case (Inr t)
        obtain precision_ma recall_ma f_score_ma where t: "t = (precision_ma, recall_ma, f_score_ma)"
          by (cases t) auto
        show ?thesis
          using acc False mae Inr t
          by (auto simp add: accuracy_precision_recall_fscore_def dict_update_def dict_set_def)
      qed
    qed
  qed
qed

theorem accuracy_precision_recall_fscore_keys_witness:
  "accuracy_precision_recall_fscore
     \<lparr>accuracy_score = (\<lambda>y_true y_pred. Inr 1),
      precision_recall_fscore_support = (\<lambda>y_true y_pred average. Inr (1, 1, 1)),
      mean_absolute_error = (\<lambda>y_true y_pred. Inr 0),
      average_precision_score = (\<lambda>y_true y_score. Inr 1)\<rparr>
     [1, 0] [1, 0] True
   = Inr [(''accuracy'', 1), (''precision'', 1), (''recall'', 1), (''f-score'', 1)]"
  by (rule iffD2 [OF accuracy_precision_recall_fscore_keys]) simp

lemma add_metrics_default: "add_metrics (DefaultDict []) m = Inr m"
  by (induction m) auto

lemma add_metrics_dict:
  assumes "set (map fst m) \<subseteq> set (map fst acc)"
  shows "add_metrics (Dict acc) m = Inr (map (\<lambda>(k, v). (k, the (map_of acc k) + v)) m)"
  using assms
proof (induction m)
  case Nil
  then show ?case by simp
next
  case (Cons kv m)
  obtain k v where kv: "kv = (k, v)" by (cases kv)
  have "k \<in> fst ` set acc" using Cons.prems kv by auto
  then obtain s where s: "map_of acc k = Some s"
    by (metis domD dom_map_of_conv_image_fst)
  show ?case using Cons kv s by (simp add: dict_get_def)
qed

lemma map_of_add:
  assumes "map_of m k = Some v"
  shows "map_of (map (\<lambda>(k, v). (k, f k + v)) m) k = Some (f k + v)"
  using assms by (induction m) (auto split: if_splits)

lemma fold_loop_dict:
  assumes "\<forall>m \<in> set folds. set (map fst m) = K \<and> distinct (map fst m)"
      and "set (map fst acc) = K" and "distinct (map fst acc)"
  shows "\<exists>d. fold_loop (Dict acc) folds = Inr (Dict d) \<and> set (map fst d) = K
           \<and> distinct (map fst d)
           \<and> (\<forall>k \<in> K. map_of d k
                 = Some (the (map_of acc k) + (\<Sum>m\<leftarrow>folds. the (map_of m k))))"
  using assms
proof (induction folds arbitrary: acc)
  case Nil
  have "\<forall>k \<in> K. map_of acc k = Some (the (map_of acc k))"
    using Nil.prems(2) by (metis domD dom_map_of_conv_image_fst option.sel set_map)
  then show ?case using Nil by simp
next
  case (Cons m folds)
  let ?d1 = "map (\<lambda>(k, v). (k, the (map_of acc k) + v)) m"
  have mk: "set (map fst m) = K" "distinct (map fst m)" using Cons.prems(1) by auto
  have step: "add_metrics (Dict acc) m = Inr ?d1"
    using mk(1) Cons.prems(2) by (intro add_metrics_dict) simp
  have fst1: "map fst ?d1 = map fst m" by (induction m) auto
  have k1: "set (map fst ?d1) = K" unfolding fst1 by (rule mk(1))
  have d1: "distinct (map fst ?d1)" unfolding fst1 by (rule mk(2))
  have rest: "\<forall>m \<in> set folds. set (map fst m) = K \<and> distinct (map fst m)"
    using Cons.prems(1) by simp
  have "\<exists>d. fold_loop (Dict ?d1) folds = Inr (Dict d) \<and> set (map fst d) = K
           \<and> distinct (map fst d)
           \<and> (\<forall>k \<in> K. map_of d k
                 = Some (the (map_of ?d1 k) + (\<Sum>m\<leftarrow>folds. the (map_of m k))))"
    by (rule Cons.IH [OF rest k1 d1])
  then obtain d where d: "fold_loop (Dict ?d1) folds = Inr (Dict d)" "set (map fst d) = K"
      "distinct (map fst d)"
      "\<forall>k \<in> K. map_of d k = Some (the (map_of ?d1 k) + (\<Sum>m\<leftarrow>folds. the (map_of m k)))"
    by blast
  have "\<forall>k \<in> K. the (map_of ?d1 k) = the (map_of acc k) + the (map_of m k)"
  proof
    fix k assume "k \<in> K"
    then have "k \<in> fst ` set m" using mk(1) by simp
    then obtain v where v: "map_of m k = Some v"
      by (metis domD dom_map_of_conv_image_fst)
    show "the (map_of ?d1 k) = the (map_of acc k) + the (map_of m k)"
      using map_of_add [OF v, of "\<lambda>k. the (map_of acc k)"] v by simp
  qed
  then have "\<forall>k \<in> K. map_of d k
                 = Some (the (map_of acc k) + (\<Sum>m\<leftarrow>(m # folds). the (map_of m k)))"
    using d(4) by (simp add: add.assoc)
  then show ?case using step d(1,2,3) by simp
qed

text \<open>
  C2.  Over \<open>nr_folds\<close> folds whose metrics dictionaries have the same keys, the final
  dictionary has these keys and maps each of them to the sum of its values over the folds
  divided by the number of folds.  Four folds with the accuracies 0.80, 0.85, 0.90 and 0.75
  give the accuracy 0.825.
\<close>

theorem train_test_model_cv_mean:
  assumes "2 \<le> nr_folds" and "length folds = nr_folds"
      and "\<forall>m \<in> set folds. set (map fst m) = K \<and> distinct (map fst m)"
  shows "(\<exists>d. train_test_model_cv nr_folds folds = Inr d \<and> set (map fst d) = K
            \<and> distinct (map fst d)
            \<and> (\<forall>k \<in> K. map_of d k
                  = Some ((\<Sum>m\<leftarrow>folds. the (map_of m k)) / real nr_folds)))
       \<and> train_test_model_cv 4
           [[(''accuracy'', 80 / 100)], [(''accuracy'', 85 / 100)],
            [(''accuracy'', 90 / 100)], [(''accuracy'', 75 / 100)]]
         = Inr [(''accuracy'', 825 / 1000)]"
proof
  obtain m rest where folds: "folds = m # rest"
    using assms(1,2) by (cases folds) auto
  have mk: "set (map fst m) = K" "distinct (map fst m)" using assms(3) folds by auto
  have rest: "\<forall>m \<in> set rest. set (map fst m) = K \<and> distinct (map fst m)"
    using assms(3) folds by simp
  have "\<exists>d. fold_loop (Dict m) rest = Inr (Dict d) \<and> set (map fst d) = K
           \<and> distinct (map fst d)
           \<and> (\<forall>k \<in> K. map_of d k
                 = Some (the (map_of m k) + (\<Sum>m\<leftarrow>rest. the (map_of m k))))"
    by (rule fold_loop_dict [OF rest mk])
  then obtain d where d: "fold_loop (Dict m) rest = Inr (Dict d)" "set (map fst d) = K"
      "distinct (map fst d)"
      "\<forall>k \<in> K. map_of d k = Some (the (map_of m k) + (\<Sum>m\<leftarrow>rest. the (map_of m k)))"
    by blast
  let ?r = "map (\<lambda>(k, v). (k, v / real nr_folds)) d"
  have run: "train_test_model_cv nr_folds folds = Inr ?r"
    using assms(1) folds d(1) by (simp add: train_test_model_cv_def add_metrics_default)
  have keys: "map fst ?r = map fst d" by (induction d) auto
  have "\<forall>k \<in> K. map_of ?r k = Some ((\<Sum>m\<leftarrow>folds. the (map_of m k)) / real nr_folds)"
    using d(4) folds by (simp add: map_of_map)
  moreover have "set (map fst ?r) = K" unfolding keys by (rule d(2))
  moreover have "distinct (map fst ?r)" unfolding keys by (rule d(3))
  ultimately show "\<exists>d. train_test_model_cv nr_folds folds = Inr d \<and> set (map fst d) = K
            \<and> distinct (map fst d)
            \<and> (\<forall>k \<in> K. map_of d k
                  = Some ((\<Sum>m\<leftarrow>folds. the (map_of m k)) / real nr_folds))"
    using run by blast
next
  show "train_test_model_cv 4
           [[(''accuracy'', 80 / 100)], [(''accuracy'', 85 / 100)],
            [(''accuracy'', 90 / 100)], [(''accuracy'', 75 / 100)]]
         = Inr [(''accuracy'', 825 / 1000)]"
    by (simp add: train_test_model_cv_def dict_get_def)
qed

theorem train_test_model_cv_mean_witness:
  "(\<exists>d. train_test_model_cv 2
           [[(''accuracy'', 4 / 5), (''f-score'', 3 / 5)],
            [(''accuracy'', 9 / 10), (''f-score'', 7 / 10)]] = Inr d
        \<and> set (map fst d) = {''accuracy'', ''f-score''}
        \<and> distinct (map fst d)
        \<and> (\<forall>k \<in> {''accuracy'', ''f-score''}. map_of d k
               = Some ((\<Sum>m\<leftarrow>[[(''accuracy'', 4 / 5), (''f-score'', 3 / 5)],
                              [(''accuracy'', 9 / 10), (''f-score'', 7 / 10)]].
                          the (map_of m k)) / real (2 :: nat))))
   \<and> train_test_model_cv 4
           [[(''accuracy'', 80 / 100)], [(''accuracy'', 85 / 100)],
            [(''accuracy'', 90 / 100)], [(''accuracy'', 75 / 100)]]
         = Inr [(''accuracy'', 825 / 1000)]"
proof -
  have h1: "2 \<le> (2 :: nat)" by simp
  have h2: "length [[(''accuracy'', 4 / 5 :: real), (''f-score'', 3 / 5)],
                    [(''accuracy'', 9 / 10), (''f-score'', 7 / 10)]] = 2"
    by simp
  have h3: "\<forall>m \<in> set [[(''accuracy'', 4 / 5 :: real), (''f-score'', 3 / 5)],
                       [(''accuracy'', 9 / 10), (''f-score'', 7 / 10)]].
              set (map fst m) = {''accuracy'', ''f-score''} \<and> distinct (map fst m)"
    by simp
  show ?thesis
    by (rule train_test_model_cv_mean [OF h1 h2 h3])
qed

section \<open>Properties of the ranked average precision\<close>

lemma average_precision_loop_lists:
  "lists (snd (average_precision_loop sk results ks score w)) = lists w"
  by (induction sk results ks score w rule: average_precision_loop.induct)
     (auto simp add: print_def split: sum.splits prod.splits)

lemma sorted_desc_descending: "sorted_wrt (\<lambda>x y. fst x \<ge> fst y) (sorted_desc lst)"
proof -
  have "sorted (map fst (sort_key fst (rev lst)))" by simp
  then have "sorted_wrt (\<lambda>x y. fst x \<le> fst y) (sort_key fst (rev lst))"
    by (simp add: sorted_wrt_map)
  then show ?thesis
    by (simp add: sorted_desc_def sorted_wrt_rev)
qed

lemma sorted_desc_stable:
  "filter (\<lambda>x. fst x = p) (sorted_desc lst) = filter (\<lambda>x. fst x = p) lst"
  by (simp add: sorted_desc_def sort_key_stable flip: rev_filter)

lemma sorted_desc_mset: "mset (sorted_desc lst) = mset lst"
  by (simp add: sorted_desc_def)

lemma sorted_desc_Nil: "(sorted_desc lst = []) = (lst = [])"
  using sorted_desc_mset [of lst] by (metis mset_zero_iff)

lemma average_precision_loop_ok:
  assumes "results \<noteq> []"
      and "\<forall>k \<in> set ks. 0 < k \<and>
             average_precision_score sk (map snd (take k results)) (map fst (take k results))
               = Inr (ap k)"
  shows "average_precision_loop sk results ks score w
         = (Inr (score + sum_list (map ap ks)),
            w\<lparr>stdout := stdout w @ map (\<lambda>k. AveragePrecisionAt k (ap k)) ks\<rparr>)"
  using assms
proof (induction ks arbitrary: score w)
  case Nil
  then show ?case by simp
next
  case (Cons k ks)
  have k: "0 < k" "average_precision_score sk (map snd (take k results)) (map fst (take k results))
               = Inr (ap k)"
    using Cons.prems(2) by auto
  have u: "py_unzip (take k results) = Inr (map fst (take k results), map snd (take k results))"
    using k(1) Cons.prems(1) by (simp add: py_unzip_def)
  have ih: "average_precision_loop sk results ks (score + ap k) (print (AveragePrecisionAt k (ap k)) w)
         = (Inr (score + ap k + sum_list (map ap ks)),
            (print (AveragePrecisionAt k (ap k)) w)
              \<lparr>stdout := stdout (print (AveragePrecisionAt k (ap k)) w)
                           @ map (\<lambda>k. AveragePrecisionAt k (ap k)) ks\<rparr>)"
    using Cons.IH [of "score + ap k" "print (AveragePrecisionAt k (ap k)) w"] Cons.prems by simp
  show ?case
    using u k(2) ih by (simp add: print_def add.assoc)
qed

lemma average_precision_loop_error:
  assumes "results \<noteq> []" and "\<forall>k \<in> set ks. 0 < k"
      and "fst (average_precision_loop sk results ks score w) = Inl e"
  shows "\<exists>k \<in> set ks.
           average_precision_score sk (map snd (take k results)) (map fst (take k results)) = Inl e"
  using assms
proof (induction ks arbitrary: score w)
  case Nil
  then show ?case by simp
next
  case (Cons k ks)
  have u: "py_unzip (take k results) = Inr (map fst (take k results), map snd (take k results))"
    using Cons.prems(1,2) by (simp add: py_unzip_def)
  show ?case
  proof (cases "average_precision_score sk (map snd (take k results)) (map fst (take k results))")
    case (Inl e')
    then show ?thesis using Cons.prems(3) u by simp
  next
    case (Inr v)
    then have "fst (average_precision_loop sk results ks (score + v)
                      (print (AveragePrecisionAt k v) w)) = Inl e"
      using Cons.prems(3) u by simp
    then show ?thesis using Cons.IH Cons.prems(1,2) by auto
  qed
qed

text \<open>
  C9.  \<^verbatim>\<open>calculate_average_precision_ks\<close> leaves the pool it is given as it was, in both
  modes and whether it returns or raises: the sorted list is a new object.
\<close>

theorem calculate_average_precision_ks_keeps_pool:
  assumes "lst < next_free (lists w)"
  shows "cells (lists (snd (calculate_average_precision_ks sk lst is_binary ks w))) lst
         = cells (lists w) lst"
proof (cases is_binary)
  case False
  then show ?thesis by (simp add: calculate_average_precision_ks_def)
next
  case True
  define w1 where "w1 = snd (new_list (sorted_desc (cells (lists w) lst)) w)"
  define res where "res = average_precision_loop sk (cells (lists w1) (next_free (lists w))) ks 0 w1"
  have l1: "cells (lists w1) lst = cells (lists w) lst"
    using assms by (simp add: w1_def new_list_simps)
  have l2: "lists (snd res) = lists w1"
    unfolding res_def by (rule average_precision_loop_lists)
  have "lists (snd (calculate_average_precision_ks sk lst is_binary ks w)) = lists (snd res)"
    using True
    by (cases res)
       (auto simp add: calculate_average_precision_ks_def new_list_simps res_def w1_def print_def
          split: sum.splits)
  then show ?thesis using l1 l2 by simp
qed

theorem calculate_average_precision_ks_keeps_pool_witness:
  "cells (lists (snd (calculate_average_precision_ks
      \<lparr>accuracy_score = (\<lambda>y_true y_pred. Inr 1),
       precision_recall_fscore_support = (\<lambda>y_true y_pred average. Inr (1, 1, 1)),
       mean_absolute_error = (\<lambda>y_true y_pred. Inr 0),
       average_precision_score = (\<lambda>y_true y_score. Inr 1)\<rparr>
      0 True ks_default
      \<lparr>arrays = \<lparr>cells = (\<lambda>a. \<lparr>shape = [], data = []\<rparr>), next_free = 0\<rparr>,
       lists = \<lparr>cells = (\<lambda>a. [(1 / 2, 0), (7 / 10, 1), (1 / 2, 1)]), next_free = 1\<rparr>,
       stdout = [], info_txt = ''''\<rparr>))) 0
   = [(1 / 2, 0), (7 / 10, 1), (1 / 2, 1)]"
proof -
  let ?w = "\<lparr>arrays = \<lparr>cells = (\<lambda>a. \<lparr>shape = [], data = []\<rparr>), next_free = 0\<rparr>,
       lists = \<lparr>cells = (\<lambda>a. [(1 / 2, 0), (7 / 10, 1), (1 / 2, 1)]), next_free = 1\<rparr>,
       stdout = [], info_txt = ''''\<rparr>"
  have h: "0 < next_free (lists ?w)" by simp
  show ?thesis
    using calculate_average_precision_ks_keeps_pool [OF h] by simp
qed

text \<open>
  C3.  In binary mode the pool is sorted by descending probability, equal probabilities
  keeping their order; for each \<open>k\<close> of 50, 100, 250 and 480 the average precision is taken
  of the first \<open>k\<close> pairs of the sorted pool and printed, and then the mean of the four
  values.  In multi-class mode the call does nothing and raises nothing.
\<close>

theorem calculate_average_precision_ks_top_k:
  assumes "cells (lists w) lst \<noteq> []"
      and "\<forall>k \<in> set ks_default.
             average_precision_score sk
               (map snd (take k (sorted_desc (cells (lists w) lst))))
               (map fst (take k (sorted_desc (cells (lists w) lst)))) = Inr (ap k)"
  shows "sorted_wrt (\<lambda>x y. fst x \<ge> fst y) (sorted_desc (cells (lists w) lst))
       \<and> mset (sorted_desc (cells (lists w) lst)) = mset (cells (lists w) lst)
       \<and> (\<forall>p. filter (\<lambda>x. fst x = p) (sorted_desc (cells (lists w) lst))
                = filter (\<lambda>x. fst x = p) (cells (lists w) lst))
       \<and> (\<exists>w'. calculate_average_precision_ks sk lst True ks_default w = (Inr (), w')
             \<and> stdout w' = stdout w @
                 [AveragePrecisionAt 50 (ap 50), AveragePrecisionAt 100 (ap 100),
                  AveragePrecisionAt 250 (ap 250), AveragePrecisionAt 480 (ap 480),
                  AveragePrecisionMean [50, 100, 250, 480]
                    ((ap 50 + ap 100 + ap 250 + ap 480) / 4)])
       \<and> calculate_average_precision_ks sk lst False ks w = (Inr (), w)"
proof -
  let ?results = "sorted_desc (cells (lists w) lst)"
  let ?w1 = "snd (new_list ?results w)"
  have ne: "?results \<noteq> []" using assms(1) by (simp add: sorted_desc_Nil)
  have lib: "\<forall>k \<in> set ks_default. 0 < k \<and>
             average_precision_score sk (map snd (take k ?results)) (map fst (take k ?results))
               = Inr (ap k)"
    using assms(2) by (simp add: ks_default_def)
  have loop: "average_precision_loop sk ?results ks_default 0 ?w1
         = (Inr (0 + sum_list (map ap ks_default)),
            ?w1\<lparr>stdout := stdout ?w1 @ map (\<lambda>k. AveragePrecisionAt k (ap k)) ks_default\<rparr>)"
    by (rule average_precision_loop_ok [OF ne lib])
  have kne: "ks_default \<noteq> []" by (simp add: ks_default_def)
  have call: "calculate_average_precision_ks sk lst True ks_default w
         = (Inr (),
            print (AveragePrecisionMean ks_default
                     ((0 + sum_list (map ap ks_default)) / real (length ks_default)))
              (?w1\<lparr>stdout := stdout ?w1 @ map (\<lambda>k. AveragePrecisionAt k (ap k)) ks_default\<rparr>))"
    using loop kne by (simp add: calculate_average_precision_ks_def new_list_simps)
  have run: "\<exists>w'. calculate_average_precision_ks sk lst True ks_default w = (Inr (), w')
             \<and> stdout w' = stdout w @
                 [AveragePrecisionAt 50 (ap 50), AveragePrecisionAt 100 (ap 100),
                  AveragePrecisionAt 250 (ap 250), AveragePrecisionAt 480 (ap 480),
                  AveragePrecisionMean [50, 100, 250, 480]
                    ((ap 50 + ap 100 + ap 250 + ap 480) / 4)]"
    unfolding call by (simp add: new_list_simps print_def ks_default_def)
  show ?thesis
    using sorted_desc_descending sorted_desc_mset sorted_desc_stable run
    by (simp add: calculate_average_precision_ks_def)
qed

theorem calculate_average_precision_ks_top_k_witness:
  "let sk = \<lparr>accuracy_score = (\<lambda>y_true y_pred. Inr 1),
             precision_recall_fscore_support = (\<lambda>y_true y_pred average. Inr (1, 1, 1)),
             mean_absolute_error = (\<lambda>y_true y_pred. Inr 0),
             average_precision_score = (\<lambda>y_true y_score. Inr 1)\<rparr>;
       w = \<lparr>arrays = \<lparr>cells = (\<lambda>a. \<lparr>shape = [], data = []\<rparr>), next_free = 0\<rparr>,
            lists = \<lparr>cells = (\<lambda>a. [(1 / 2, 0), (7 / 10, 1), (1 / 2, 1)]), next_free = 1\<rparr>,
            stdout = [], info_txt = ''''\<rparr>
   in sorted_desc (cells (lists w) 0) = [(7 / 10, 1), (1 / 2, 0), (1 / 2, 1)]
    \<and> (\<exists>w'. calculate_average_precision_ks sk 0 True ks_default w = (Inr (), w')
          \<and> stdout w' =
                 [AveragePrecisionAt 50 1, AveragePrecisionAt 100 1,
                  AveragePrecisionAt 250 1, AveragePrecisionAt 480 1,
                  AveragePrecisionMean [50, 100, 250, 480] 1])
    \<and> calculate_average_precision_ks sk 0 False ks_default w = (Inr (), w)"
proof -
  let ?sk = "\<lparr>accuracy_score = (\<lambda>y_true y_pred. Inr 1),
             precision_recall_fscore_support = (\<lambda>y_true y_pred average. Inr (1, 1, 1)),
             mean_absolute_error = (\<lambda>y_true y_pred. Inr 0),
             average_precision_score = (\<lambda>y_true y_score. Inr 1)\<rparr>"
  let ?w = "\<lparr>arrays = \<lparr>cells = (\<lambda>a. \<lparr>shape = [], data = []\<rparr>), next_free = 0\<rparr>,
            lists = \<lparr>cells = (\<lambda>a. [(1 / 2, 0), (7 / 10, 1), (1 / 2, 1)]), next_free = 1\<rparr>,
            stdout = [], info_txt = ''''\<rparr>"
  have h1: "cells (lists ?w) 0 \<noteq> []" by simp
  have h2: "\<forall>k \<in> set ks_default.
             average_precision_score ?sk
               (map snd (take k (sorted_desc (cells (lists ?w) 0))))
               (map fst (take k (sorted_desc (cells (lists ?w) 0)))) = Inr ((\<lambda>k. 1) k)"
    by simp
  have s: "sorted_desc [(1 / 2, 0), (7 / 10, 1), (1 / 2, 1)] = [(7 / 10, 1), (1 / 2, 0), (1 / 2, 1)]"
    by (simp add: sorted_desc_def sort_key_def)
  show ?thesis
    unfolding Let_def
    using calculate_average_precision_ks_top_k [OF h1 h2, of ks_default] s by simp
qed

text \<open>
  Against C4 as it is stated (every non-empty pool of fewer than 480 pairs makes the call fail
  when the slice for the largest \<open>k\<close> is unzipped): a slice of a short list is the whole list,
  which unzips, and the call completes.
\<close>

theorem short_pool_completes:
  "fst (calculate_average_precision_ks
          \<lparr>accuracy_score = (\<lambda>y_true y_pred. Inr 1),
           precision_recall_fscore_support = (\<lambda>y_true y_pred average. Inr (1, 1, 1)),
           mean_absolute_error = (\<lambda>y_true y_pred. Inr 0),
           average_precision_score = (\<lambda>y_true y_score. Inr 1)\<rparr>
          0 True ks_default
          \<lparr>arrays = \<lparr>cells = (\<lambda>a. \<lparr>shape = [], data = []\<rparr>), next_free = 0\<rparr>,
           lists = \<lparr>cells = (\<lambda>a. [(9 / 10, 1)]), next_free = 1\<rparr>,
           stdout = [], info_txt = ''''\<rparr>) = Inr ()
   \<and> py_unzip (take 480 (sorted_desc [(9 / 10, 1)])) = Inr ([9 / 10], [1])"
  by (simp add: calculate_average_precision_ks_def new_list_simps sorted_desc_def ks_default_def
        py_unzip_def print_def sort_key_def)

text \<open>
  C4, amended.  With the default \<open>ks\<close> in binary mode, the unzip fails for the empty pool
  only, at the first \<open>k\<close> and with \<^verbatim>\<open>ValueError\<close>.  For a non-empty pool, also one of
  fewer than 480 pairs, the slice for each \<open>k\<close> holds the first \<open>min k n\<close> pairs of the
  sorted pool and unzips, and the call raises only an error that
  \<^verbatim>\<open>average_precision_score\<close> raised.
\<close>

theorem calculate_average_precision_ks_short_pool:
  "(cells (lists w) lst = [] \<longrightarrow>
      calculate_average_precision_ks sk lst True ks_default w
        = (Inl ValueError, snd (new_list [] w)))
   \<and> (cells (lists w) lst \<noteq> [] \<longrightarrow>
        (\<forall>k \<in> set ks_default.
           length (take k (sorted_desc (cells (lists w) lst))) = min k (length (cells (lists w) lst))
           \<and> py_unzip (take k (sorted_desc (cells (lists w) lst)))
               = Inr (map fst (take k (sorted_desc (cells (lists w) lst))),
                      map snd (take k (sorted_desc (cells (lists w) lst)))))
        \<and> (\<forall>e. fst (calculate_average_precision_ks sk lst True ks_default w) = Inl e \<longrightarrow>
              (\<exists>k \<in> set ks_default.
                 average_precision_score sk
                   (map snd (take k (sorted_desc (cells (lists w) lst))))
                   (map fst (take k (sorted_desc (cells (lists w) lst)))) = Inl e)))"
proof (intro conjI impI allI)
  assume "cells (lists w) lst = []"
  then show "calculate_average_precision_ks sk lst True ks_default w
        = (Inl ValueError, snd (new_list [] w))"
    by (simp add: calculate_average_precision_ks_def new_list_simps sorted_desc_def ks_default_def
          py_unzip_def)
next
  assume ne: "cells (lists w) lst \<noteq> []"
  have "length (sorted_desc (cells (lists w) lst)) = length (cells (lists w) lst)"
    by (simp add: sorted_desc_def)
  then show "\<forall>k \<in> set ks_default.
           length (take k (sorted_desc (cells (lists w) lst))) = min k (length (cells (lists w) lst))
           \<and> py_unzip (take k (sorted_desc (cells (lists w) lst)))
               = Inr (map fst (take k (sorted_desc (cells (lists w) lst))),
                      map snd (take k (sorted_desc (cells (lists w) lst))))"
    using ne by (simp add: ks_default_def py_unzip_def sorted_desc_Nil min.commute)
next
  fix e
  assume ne: "cells (lists w) lst \<noteq> []"
     and err: "fst (calculate_average_precision_ks sk lst True ks_default w) = Inl e"
  let ?results = "sorted_desc (cells (lists w) lst)"
  let ?w1 = "snd (new_list ?results w)"
  have rne: "?results \<noteq> []" using ne by (simp add: sorted_desc_Nil)
  have pos: "\<forall>k \<in> set ks_default. 0 < k" by (simp add: ks_default_def)
  have kne: "ks_default \<noteq> []" by (simp add: ks_default_def)
  have "fst (average_precision_loop sk ?results ks_default 0 ?w1) = Inl e"
    using err kne
    by (cases "average_precision_loop sk ?results ks_default 0 ?w1")
       (auto simp add: calculate_average_precision_ks_def new_list_simps split: sum.splits)
  then show "\<exists>k \<in> set ks_default.
                 average_precision_score sk
                   (map snd (take k (sorted_desc (cells (lists w) lst))))
                   (map fst (take k (sorted_desc (cells (lists w) lst)))) = Inl e"
    by (rule average_precision_loop_error [OF rne pos])
qed

theorem calculate_average_precision_ks_short_pool_witness:
  "calculate_average_precision_ks
      \<lparr>accuracy_score = (\<lambda>y_true y_pred. Inr 1),
       precision_recall_fscore_support = (\<lambda>y_true y_pred average. Inr (1, 1, 1)),
       mean_absolute_error = (\<lambda>y_true y_pred. Inr 0),
       average_precision_score = (\<lambda>y_true y_score. Inr 1)\<rparr>
      0 True ks_default
      \<lparr>arrays = \<lparr>cells = (\<lambda>a. \<lparr>shape = [], data = []\<rparr>), next_free = 0\<rparr>,
       lists = \<lparr>cells = (\<lambda>a. []), next_free = 1\<rparr>, stdout = [], info_txt = ''''\<rparr>
    = (Inl ValueError,
       \<lparr>arrays = \<lparr>cells = (\<lambda>a. \<lparr>shape = [], data = []\<rparr>), next_free = 0\<rparr>,
        lists = \<lparr>cells = (\<lambda>a. [])(1 := []), next_free = 2\<rparr>, stdout = [], info_txt = ''''\<rparr>)
   \<and> py_unzip (take 480 (sorted_desc [(1 / 5, 0), (9 / 10, 1)])) = Inr ([9 / 10, 1 / 5], [1, 0])"
proof -
  let ?sk = "\<lparr>accuracy_score = (\<lambda>y_true y_pred. Inr 1),
             precision_recall_fscore_support = (\<lambda>y_true y_pred average. Inr (1, 1, 1)),
             mean_absolute_error = (\<lambda>y_true y_pred. Inr 0),
             average_precision_score = (\<lambda>y_true y_score. Inr 1)\<rparr>"
  let ?w0 = "\<lparr>arrays = \<lparr>cells = (\<lambda>a. \<lparr>shape = [], data = []\<rparr>), next_free = 0\<rparr>,
       lists = \<lparr>cells = (\<lambda>a. []), next_free = 1\<rparr>, stdout = [], info_txt = ''''\<rparr>"
  let ?w2 = "\<lparr>arrays = \<lparr>cells = (\<lambda>a. \<lparr>shape = [], data = []\<rparr>), next_free = 0\<rparr>,
       lists = \<lparr>cells = (\<lambda>a. [(1 / 5, 0), (9 / 10, 1)]), next_free = 1\<rparr>,
       stdout = [], info_txt = ''''\<rparr>"
  have s: "sorted_desc [(1 / 5, 0), (9 / 10, 1)] = [(9 / 10, 1), (1 / 5, 0)]"
    by (simp add: sorted_desc_def sort_key_def)
  show ?thesis
    using calculate_average_precision_ks_short_pool [of ?w0 0 ?sk]
          calculate_average_precision_ks_short_pool [of ?w2 0 ?sk] s
    by (simp add: new_list_simps ks_default_def)
qed

section \<open>Properties of the classification report\<close>

text \<open>
  C8.  With the flag \<^verbatim>\<open>print_classifications\<close> off, the call returns at once: nothing
  is printed and the report file is as before.
\<close>

theorem print_classifications_off:
  assumes "\<not> print_classifications_flag a"
  shows "print_classifications a tst_flow y_pred w = (Inr (), w)"
  using assms by (simp add: print_classifications_def)

theorem print_classifications_off_witness:
  "print_classifications
     \<lparr>dataset = ''d'', data_augmentation = False, print_classifications_flag = False\<rparr>
     \<lparr>class_indices = [(''0'', 0), (''1'', 1)], classes = [1, 0],
      filenames = [''d.jpg'', ''e.jpg''], getitem = (\<lambda>key. Inl TypeError)\<rparr>
     [1, 1]
     \<lparr>arrays = \<lparr>cells = (\<lambda>a. \<lparr>shape = [], data = []\<rparr>), next_free = 0\<rparr>,
      lists = \<lparr>cells = (\<lambda>a. []), next_free = 0\<rparr>, stdout = [], info_txt = ''old''\<rparr>
   = (Inr (),
     \<lparr>arrays = \<lparr>cells = (\<lambda>a. \<lparr>shape = [], data = []\<rparr>), next_free = 0\<rparr>,
      lists = \<lparr>cells = (\<lambda>a. []), next_free = 0\<rparr>, stdout = [], info_txt = ''old''\<rparr>)"
  by (rule print_classifications_off) simp

end
